theory Spec2Isabelle
  imports Complex_Main "HOL-Library.Word"
begin

section \<open>The texture based PBR example (pbrtexture.cpp)\<close>

text \<open>
  The example is one C++ class, \<^verbatim>\<open>VulkanExample\<close>, on top of the framework's base class.
  Its own state is a handful of members: the loaded meshes with the index of the active
  one, the three materials, the shader parameter block with its mapped buffer, and the
  recorded draw command buffers. Every member function is a state transformer here.

  Numbers. \<^verbatim>\<open>uint32_t\<close> is \<open>32 word\<close>: \<open>+\<close> wraps and \<open>\<le>\<close> compares unsigned.
  A C++ \<^verbatim>\<open>float\<close> is modelled by the real number it denotes. This covers every finite
  value; rounding of sums is not represented, and NaN is outside the model (what
  \<^verbatim>\<open>glm::clamp\<close> returns for a NaN depends on the comparison order inside the GLM headers,
  which are not part of this source file).

  Failure. \<^verbatim>\<open>models.objects[models.objectIndex]\<close> is an unchecked vector access; an index
  outside the vector is the error \<open>IndexOutOfRange\<close>. A Vulkan call wrapped in
  \<^verbatim>\<open>VK_CHECK_RESULT\<close> aborts the program when it fails; the only such call whose
  failure depends on this file's own numbers is the descriptor set allocation, which fails
  with \<open>VK_ERROR_OUT_OF_POOL_MEMORY\<close> when the pool created a few lines earlier is too
  small.
\<close>

subsection \<open>Vectors and the GLM functions used\<close>

type_synonym float = real
type_synonym uint32_t = "32 word"

record vec3 =
  x :: float
  y :: float
  z :: float

record vec4 = vec3 +
  w :: float

text \<open>\<^verbatim>\<open>glm::max\<close>, \<^verbatim>\<open>glm::min\<close> and \<^verbatim>\<open>glm::clamp\<close> on scalars:
  \<^verbatim>\<open>clamp(x, minVal, maxVal) = min(max(x, minVal), maxVal)\<close>.\<close>

definition glm_max :: "float \<Rightarrow> float \<Rightarrow> float" where
  "glm_max a b = (if a < b then b else a)"

definition glm_min :: "float \<Rightarrow> float \<Rightarrow> float" where
  "glm_min a b = (if b < a then b else a)"

definition glm_clamp :: "float \<Rightarrow> float \<Rightarrow> float \<Rightarrow> float" where
  "glm_clamp v minVal maxVal = glm_min (glm_max v minVal) maxVal"

text \<open>\<^verbatim>\<open>glm::vec3(s)\<close> sets every component to \<open>s\<close>; \<^verbatim>\<open>glm::vec4(a, b, c, d)\<close> lists
  the components; \<^verbatim>\<open>glm::radians\<close> converts degrees to radians.\<close>

definition glm_vec3 :: "float \<Rightarrow> vec3" where
  "glm_vec3 s = \<lparr>x = s, y = s, z = s\<rparr>"

definition glm_vec4 :: "float \<Rightarrow> float \<Rightarrow> float \<Rightarrow> float \<Rightarrow> vec4" where
  "glm_vec4 a b c d = \<lparr>x = a, y = b, z = c, w = d\<rparr>"

definition glm_radians :: "float \<Rightarrow> float" where
  "glm_radians degrees = degrees * (pi / 180)"

subsection \<open>Vulkan objects\<close>

datatype error = IndexOutOfRange | VK_ERROR_OUT_OF_POOL_MEMORY

datatype VkFormat = VK_FORMAT_UNDEFINED | VK_FORMAT_BC3_UNORM_BLOCK | VK_FORMAT_R8_UNORM

datatype VkBuffer = BufferHandle nat

text \<open>A descriptor set handle is the number of the allocation that produced it;
  \<open>VK_NULL_HANDLE\<close> stands for the member that nothing has been assigned to yet.\<close>

datatype VkDescriptorSet = VK_NULL_HANDLE | DescriptorSetHandle nat

datatype VkDescriptorType =
  VK_DESCRIPTOR_TYPE_UNIFORM_BUFFER | VK_DESCRIPTOR_TYPE_COMBINED_IMAGE_SAMPLER

datatype VkShaderStageFlagBits = VK_SHADER_STAGE_VERTEX_BIT | VK_SHADER_STAGE_FRAGMENT_BIT

text \<open>\<^verbatim>\<open>vks::Model\<close>: the vertex and index buffer of a loaded mesh and its index count.\<close>

record Model =
  vertices :: VkBuffer
  indices :: VkBuffer
  indexCount :: uint32_t

text \<open>\<^verbatim>\<open>vks::Texture2D\<close>: a texture is known by the file it was loaded from and the
  format it was loaded with.\<close>

record Texture2D =
  source_file :: string
  image_format :: VkFormat

definition Texture2D_loadFromFile :: "string \<Rightarrow> VkFormat \<Rightarrow> Texture2D" where
  "Texture2D_loadFromFile f fmt = \<lparr>source_file = f, image_format = fmt\<rparr>"

text \<open>The three uniform buffers of the member \<^verbatim>\<open>uniformBuffers\<close>.\<close>

datatype UniformBuffer = uniformBuffers_object | uniformBuffers_skybox | uniformBuffers_params

text \<open>What a binding of a descriptor set points to: the descriptor of a buffer or of a
  texture.\<close>

datatype Descriptor = BufferDescriptor UniformBuffer | ImageDescriptor Texture2D

record VkDescriptorSetLayoutBinding =
  layout_type :: VkDescriptorType
  stageFlags :: "VkShaderStageFlagBits list"
  binding :: nat

record VkWriteDescriptorSet =
  dstSet :: VkDescriptorSet
  descriptorType :: VkDescriptorType
  dstBinding :: nat
  info :: Descriptor

text \<open>A descriptor pool: how many sets and how many descriptors of each type it can still
  hand out, and how many sets it has handed out.\<close>

record DescriptorPool =
  setsLeft :: nat
  uniformBuffersLeft :: nat
  imageSamplersLeft :: nat
  allocated :: nat

text \<open>The commands recorded into a draw command buffer, with the arguments that this file
  computes. \<open>vkCmdBeginRenderPass\<close> carries the index of the frame buffer.\<close>

datatype Command =
    vkCmdBeginRenderPass nat
  | vkCmdSetViewport
  | vkCmdSetScissor
  | vkCmdBindPipeline
  | vkCmdBindVertexBuffers VkBuffer
  | vkCmdBindIndexBuffer VkBuffer
  | vkCmdBindDescriptorSets VkDescriptorSet
  | vkCmdPushConstants VkShaderStageFlagBits vec3
  | vkCmdDrawIndexed uint32_t uint32_t uint32_t int uint32_t
  | vkCmdEndRenderPass

subsection \<open>The members of the example\<close>

record PBRTextureInfo =
  filename :: string
  format :: VkFormat
  empty :: bool

definition PBRTextureInfo_default :: PBRTextureInfo where
  "PBRTextureInfo_default = \<lparr>filename = [], format = VK_FORMAT_UNDEFINED, empty = True\<rparr>"

definition PBRTextureInfo_new :: "string \<Rightarrow> VkFormat \<Rightarrow> PBRTextureInfo" where
  "PBRTextureInfo_new f fmt = \<lparr>filename = f, format = fmt, empty = False\<rparr>"

record Textures =
  albedo :: Texture2D
  normal :: Texture2D
  metallic :: Texture2D
  roughness :: Texture2D
  ao :: Texture2D

record PBRMaterial =
  name :: string
  textures :: Textures
  descriptorSet :: VkDescriptorSet

text \<open>The constructor of \<^verbatim>\<open>PBRMaterial\<close> loads the five textures from \<open>path\<close> followed by
  the file name; it does not assign \<open>descriptorSet\<close>.\<close>

definition PBRMaterial_new ::
  "string \<Rightarrow> string \<Rightarrow> PBRTextureInfo \<Rightarrow> PBRTextureInfo \<Rightarrow> PBRTextureInfo \<Rightarrow>
   PBRTextureInfo \<Rightarrow> PBRTextureInfo \<Rightarrow> PBRMaterial" where
  "PBRMaterial_new nm path albedo' normals' metallic' roughness' ao' =
     \<lparr>name = nm,
      textures =
        \<lparr>albedo = Texture2D_loadFromFile (path @ filename albedo') (format albedo'),
         normal = Texture2D_loadFromFile (path @ filename normals') (format normals'),
         metallic = Texture2D_loadFromFile (path @ filename metallic') (format metallic'),
         roughness = Texture2D_loadFromFile (path @ filename roughness') (format roughness'),
         ao = Texture2D_loadFromFile (path @ filename ao') (format ao')\<rparr>,
      descriptorSet = VK_NULL_HANDLE\<rparr>"

record Meshes =
  skybox :: Model
  objects :: "Model list"
  objectIndex :: uint32_t

text \<open>The three members of \<^verbatim>\<open>Materials\<close> are pointers; each is modelled by the material it
  points to.\<close>

record Materials =
  plastic :: PBRMaterial
  metal :: PBRMaterial
  stone :: PBRMaterial

text \<open>\<^verbatim>\<open>glm::vec4 lights[4]\<close> is a list of four vectors.\<close>

record UBOParams =
  lights :: "vec4 list"
  roughness :: float
  metallic :: float

text \<open>
  The state. \<open>paused\<close>, \<open>timer\<close>, \<open>prepared\<close> and \<open>drawCmdBuffers\<close> are members of the
  base class. \<open>params_mapped\<close> is the content of the persistently mapped memory of
  \<^verbatim>\<open>uniformBuffers.params\<close>. Of \<^verbatim>\<open>uboMatrices\<close> the state keeps \<open>object_rotation\<close>, the
  angle in degrees of the rotation about the y axis that \<open>updateUniformBuffers\<close> writes to
  \<^verbatim>\<open>uniformBuffers.object\<close> as the model matrix; the projection, the view and the camera
  position are copies of the base class's camera. \<open>descriptorPool\<close>,
  \<open>descriptorSetLayout\<close> and \<open>descriptorSets\<close> (what each binding of each allocated set
  points to) are the device objects that the set-up functions create and write.
\<close>

record VulkanExample =
  models :: Meshes
  materials :: Materials
  uboParams :: UBOParams
  params_mapped :: UBOParams
  object_rotation :: float
  descriptorSetLayout :: "VkDescriptorSetLayoutBinding list"
  descriptorPool :: DescriptorPool
  descriptorSets :: "VkDescriptorSet \<Rightarrow> nat \<Rightarrow> Descriptor option"
  drawCmdBuffers :: "Command list list"
  paused :: bool
  timer :: float
  prepared :: bool

text \<open>The key codes are macros of the framework's headers, with one value per platform;
  they are a parameter of \<open>keyPressed\<close>.\<close>

record KeyCodes =
  KEY_SPACE :: uint32_t
  GAMEPAD_BUTTON_X :: uint32_t
  KEY_F2 :: uint32_t
  KEY_F3 :: uint32_t
  KEY_F4 :: uint32_t
  KEY_F5 :: uint32_t

subsection \<open>Recording the command buffers\<close>

definition activeObject :: "VulkanExample \<Rightarrow> error + Model" where
  "activeObject s =
     (if unat (objectIndex (models s)) < length (objects (models s))
      then Inr (objects (models s) ! unat (objectIndex (models s)))
      else Inl IndexOutOfRange)"

text \<open>The body of the loop of \<open>buildCommandBuffers\<close> for command buffer \<open>i\<close>.\<close>

definition recordCommandBuffer :: "VulkanExample \<Rightarrow> nat \<Rightarrow> error + Command list" where
  "recordCommandBuffer s i =
     (case activeObject s of
        Inl e \<Rightarrow> Inl e
      | Inr obj \<Rightarrow>
          (let pos0 = glm_vec3 0.0;
               pos1 = pos0\<lparr>z := 2.5\<rparr>;
               pos2 = pos1\<lparr>z := - 2.5\<rparr>
           in Inr
             [vkCmdBeginRenderPass i,
              vkCmdSetViewport,
              vkCmdSetScissor,
              vkCmdBindPipeline,
              vkCmdBindVertexBuffers (vertices obj),
              vkCmdBindIndexBuffer (indices obj),
              vkCmdBindDescriptorSets (descriptorSet (plastic (materials s))),
              vkCmdPushConstants VK_SHADER_STAGE_VERTEX_BIT pos0,
              vkCmdDrawIndexed (indexCount obj) 1 0 0 0,
              vkCmdBindDescriptorSets (descriptorSet (metal (materials s))),
              vkCmdPushConstants VK_SHADER_STAGE_VERTEX_BIT pos1,
              vkCmdDrawIndexed (indexCount obj) 1 0 0 0,
              vkCmdBindDescriptorSets (descriptorSet (stone (materials s))),
              vkCmdPushConstants VK_SHADER_STAGE_VERTEX_BIT pos2,
              vkCmdDrawIndexed (indexCount obj) 1 0 0 0,
              vkCmdEndRenderPass]))"

fun recordAll :: "VulkanExample \<Rightarrow> nat list \<Rightarrow> error + Command list list" where
  "recordAll s [] = Inr []"
| "recordAll s (i # js) =
     (case recordCommandBuffer s i of
        Inl e \<Rightarrow> Inl e
      | Inr cmds \<Rightarrow>
          (case recordAll s js of
             Inl e \<Rightarrow> Inl e
           | Inr rest \<Rightarrow> Inr (cmds # rest)))"

definition buildCommandBuffers :: "VulkanExample \<Rightarrow> error + VulkanExample" where
  "buildCommandBuffers s =
     (case recordAll s [0 ..< length (drawCmdBuffers s)] of
        Inl e \<Rightarrow> Inl e
      | Inr bufs \<Rightarrow> Inr (s\<lparr>drawCmdBuffers := bufs\<rparr>))"

text \<open>\<open>reBuildCommandBuffers\<close> first lets the base class replace command buffers whose
  handle is null, one buffer per swap chain image as before, and then records.\<close>

definition reBuildCommandBuffers :: "VulkanExample \<Rightarrow> error + VulkanExample" where
  "reBuildCommandBuffers s = buildCommandBuffers s"

subsection \<open>Uniform data\<close>

text \<open>\<open>updateUniformBuffers\<close>: the model matrix of the object is a rotation about the y axis
  by \<open>-90\<close> degrees, plus \<open>45\<close> for the object with index \<open>1\<close>.\<close>

definition updateUniformBuffers :: "VulkanExample \<Rightarrow> VulkanExample" where
  "updateUniformBuffers s =
     s\<lparr>object_rotation := - 90.0 + (if objectIndex (models s) = 1 then 45.0 else 0.0)\<rparr>"

text \<open>\<open>updateLights\<close>: the four assignments to \<open>lights[0]\<close> .. \<open>lights[3]\<close> set the whole
  array; the branch for the running animation then overwrites two components of the
  first and of the second light, and the block is copied to the mapped buffer.\<close>

definition updateLights :: "VulkanExample \<Rightarrow> VulkanExample" where
  "updateLights s =
     (let p = 15.0;
          l0 = [glm_vec4 (- p) (- p * 0.5) (- p) 1.0,
                glm_vec4 (- p) (- p * 0.5) p 1.0,
                glm_vec4 p (- p * 0.5) p 1.0,
                glm_vec4 p (- p * 0.5) (- p) 1.0];
          l4 = (if \<not> paused s then
                  (let l1 = l0[0 := (l0 ! 0)\<lparr>x := sin (glm_radians (timer s * 360.0)) * 20.0\<rparr>];
                       l2 = l1[0 := (l1 ! 0)\<lparr>z := cos (glm_radians (timer s * 360.0)) * 20.0\<rparr>];
                       l3 = l2[1 := (l2 ! 1)\<lparr>x := cos (glm_radians (timer s * 360.0)) * 20.0\<rparr>]
                   in l3[1 := (l3 ! 1)\<lparr>y := sin (glm_radians (timer s * 360.0)) * 20.0\<rparr>])
                else l0);
          s1 = s\<lparr>uboParams := (uboParams s)\<lparr>lights := l4\<rparr>\<rparr>
      in s1\<lparr>params_mapped := uboParams s1\<rparr>)"

definition updateParams :: "VulkanExample \<Rightarrow> VulkanExample" where
  "updateParams s = s\<lparr>params_mapped := uboParams s\<rparr>"

text \<open>\<open>prepareUniformBuffers\<close> creates and maps the three buffers and fills them.\<close>

definition prepareUniformBuffers :: "VulkanExample \<Rightarrow> VulkanExample" where
  "prepareUniformBuffers s = updateLights (updateUniformBuffers s)"

subsection \<open>Input\<close>

definition toggleObject :: "VulkanExample \<Rightarrow> error + VulkanExample" where
  "toggleObject s =
     (let i = objectIndex (models s) + 1;
          i' = (if i \<ge> word_of_nat (length (objects (models s))) then 0 else i)
      in reBuildCommandBuffers
           (updateUniformBuffers (s\<lparr>models := (models s)\<lparr>objectIndex := i'\<rparr>\<rparr>)))"

definition changeRoughnessFactor :: "VulkanExample \<Rightarrow> float \<Rightarrow> VulkanExample" where
  "changeRoughnessFactor s delta =
     updateParams
       (s\<lparr>uboParams := (uboParams s)
            \<lparr>roughness := glm_clamp (UBOParams.roughness (uboParams s) + delta) 0.05 1.0\<rparr>\<rparr>)"

definition changeMetallicFactor :: "VulkanExample \<Rightarrow> float \<Rightarrow> VulkanExample" where
  "changeMetallicFactor s delta =
     updateParams
       (s\<lparr>uboParams := (uboParams s)
            \<lparr>metallic := glm_clamp (UBOParams.metallic (uboParams s) + delta) 0.0 1.0\<rparr>\<rparr>)"

text \<open>The \<^verbatim>\<open>switch\<close> of \<open>keyPressed\<close>, its labels in the order of the source. A key code
  without a label falls through the \<^verbatim>\<open>switch\<close>.\<close>

definition keyPressed :: "KeyCodes \<Rightarrow> uint32_t \<Rightarrow> VulkanExample \<Rightarrow> error + VulkanExample" where
  "keyPressed k keyCode s =
     (if keyCode = KEY_SPACE k \<or> keyCode = GAMEPAD_BUTTON_X k then toggleObject s
      else if keyCode = KEY_F2 k then Inr (changeRoughnessFactor s (- 0.01))
      else if keyCode = KEY_F3 k then Inr (changeRoughnessFactor s 0.01)
      else if keyCode = KEY_F4 k then Inr (changeMetallicFactor s (- 0.01))
      else if keyCode = KEY_F5 k then Inr (changeMetallicFactor s 0.01)
      else Inr s)"

text \<open>Pressing the key for the next object \<open>n\<close> times.\<close>

fun toggleObject_times :: "nat \<Rightarrow> VulkanExample \<Rightarrow> error + VulkanExample" where
  "toggleObject_times 0 s = Inr s"
| "toggleObject_times (Suc n) s =
     (case toggleObject s of
        Inl e \<Rightarrow> Inl e
      | Inr s' \<Rightarrow> toggleObject_times n s')"

subsection \<open>Assets and descriptor sets\<close>

definition OBJ_DIM :: float where
  "OBJ_DIM = 0.05"

text \<open>\<open>loadAssets\<close>. The mesh loader \<^verbatim>\<open>vks::Model::loadFromFile\<close> is the parameter
  \<open>loadFromFile\<close> (file name and scale to mesh), the result of \<^verbatim>\<open>getAssetPath()\<close> the
  parameter \<open>assetPath\<close>. Each loaded object is pushed to the back of \<open>models.objects\<close>.\<close>

definition loadAssets ::
  "(string \<Rightarrow> float \<Rightarrow> Model) \<Rightarrow> string \<Rightarrow> VulkanExample \<Rightarrow> VulkanExample" where
  "loadAssets loadFromFile assetPath s =
     (let sky = loadFromFile (assetPath @ ''models/cube.obj'') 1.0;
          filenames = [''geosphere.obj'', ''roundedcube.dae'', ''venus.fbx''];
          objs = foldl
            (\<lambda>acc f. acc @
               [loadFromFile (assetPath @ ''models/'' @ f)
                  (OBJ_DIM * (if f = ''venus.fbx'' then 3.0 else 1.0))])
            (objects (models s)) filenames;
          pl = PBRMaterial_new ''plastic'' (assetPath @ ''textures/pbr/'')
            (PBRTextureInfo_new ''scuffed_plastic_albedo_bc3.ktx'' VK_FORMAT_BC3_UNORM_BLOCK)
            (PBRTextureInfo_new ''scuffed_plastic_normals_bc3.ktx'' VK_FORMAT_BC3_UNORM_BLOCK)
            (PBRTextureInfo_new ''scuffed_plastic_metallic_r8.ktx'' VK_FORMAT_R8_UNORM)
            (PBRTextureInfo_new ''scuffed_plastic_roughness_r8.ktx'' VK_FORMAT_R8_UNORM)
            (PBRTextureInfo_new ''scuffed_plastic_ao_r8.ktx'' VK_FORMAT_R8_UNORM);
          me = PBRMaterial_new ''metal'' (assetPath @ ''textures/pbr/'')
            (PBRTextureInfo_new ''greasy_metal_albedo_bc3.ktx'' VK_FORMAT_BC3_UNORM_BLOCK)
            (PBRTextureInfo_new ''greasy_metal_normals_bc3.ktx'' VK_FORMAT_BC3_UNORM_BLOCK)
            (PBRTextureInfo_new ''greasy_metal_metallic_r8.ktx'' VK_FORMAT_R8_UNORM)
            (PBRTextureInfo_new ''greasy_metal_roughness_r8.ktx'' VK_FORMAT_R8_UNORM)
            (PBRTextureInfo_new ''_dummy_ao_r8.ktx'' VK_FORMAT_R8_UNORM);
          st = PBRMaterial_new ''stone'' (assetPath @ ''textures/pbr/'')
            (PBRTextureInfo_new ''bricks_albedo_bc3.ktx'' VK_FORMAT_BC3_UNORM_BLOCK)
            (PBRTextureInfo_new ''bricks_normals_bc3.ktx'' VK_FORMAT_BC3_UNORM_BLOCK)
            (PBRTextureInfo_new ''_dummy_metallic_r8.ktx'' VK_FORMAT_R8_UNORM)
            (PBRTextureInfo_new ''bricks_roughness_r8.ktx'' VK_FORMAT_R8_UNORM)
            (PBRTextureInfo_new ''bricks_ao_r8.ktx'' VK_FORMAT_R8_UNORM)
      in s\<lparr>models := (models s)\<lparr>skybox := sky, objects := objs\<rparr>,
           materials := \<lparr>plastic = pl, metal = me, stone = st\<rparr>\<rparr>)"

definition descriptorSetLayoutBinding ::
  "VkDescriptorType \<Rightarrow> VkShaderStageFlagBits list \<Rightarrow> nat \<Rightarrow> VkDescriptorSetLayoutBinding" where
  "descriptorSetLayoutBinding t stages b = \<lparr>layout_type = t, stageFlags = stages, binding = b\<rparr>"

definition setupDescriptorSetLayout :: "VulkanExample \<Rightarrow> VulkanExample" where
  "setupDescriptorSetLayout s =
     s\<lparr>descriptorSetLayout :=
       [descriptorSetLayoutBinding VK_DESCRIPTOR_TYPE_UNIFORM_BUFFER
          [VK_SHADER_STAGE_VERTEX_BIT, VK_SHADER_STAGE_FRAGMENT_BIT] 0,
        descriptorSetLayoutBinding VK_DESCRIPTOR_TYPE_UNIFORM_BUFFER
          [VK_SHADER_STAGE_FRAGMENT_BIT] 1,
        descriptorSetLayoutBinding VK_DESCRIPTOR_TYPE_COMBINED_IMAGE_SAMPLER
          [VK_SHADER_STAGE_FRAGMENT_BIT] 2,
        descriptorSetLayoutBinding VK_DESCRIPTOR_TYPE_COMBINED_IMAGE_SAMPLER
          [VK_SHADER_STAGE_FRAGMENT_BIT] 3,
        descriptorSetLayoutBinding VK_DESCRIPTOR_TYPE_COMBINED_IMAGE_SAMPLER
          [VK_SHADER_STAGE_FRAGMENT_BIT] 4,
        descriptorSetLayoutBinding VK_DESCRIPTOR_TYPE_COMBINED_IMAGE_SAMPLER
          [VK_SHADER_STAGE_FRAGMENT_BIT] 5,
        descriptorSetLayoutBinding VK_DESCRIPTOR_TYPE_COMBINED_IMAGE_SAMPLER
          [VK_SHADER_STAGE_FRAGMENT_BIT] 6]\<rparr>"

text \<open>The Vulkan calls of \<open>setupDescriptorSets\<close>. A pool is created with a number of sets
  and, per descriptor type, a number of descriptors. Allocating a set with a layout takes
  one set and one descriptor per binding of the layout from the pool, and fails when the
  pool has not enough left. Updating writes the descriptor of each write to its binding
  of its set.\<close>

definition descriptorCount :: "VkDescriptorType \<Rightarrow> (VkDescriptorType \<times> nat) list \<Rightarrow> nat" where
  "descriptorCount t poolSizes = sum_list (map snd (filter (\<lambda>ps. fst ps = t) poolSizes))"

definition vkCreateDescriptorPool :: "(VkDescriptorType \<times> nat) list \<Rightarrow> nat \<Rightarrow> DescriptorPool" where
  "vkCreateDescriptorPool poolSizes maxSets =
     \<lparr>setsLeft = maxSets,
      uniformBuffersLeft = descriptorCount VK_DESCRIPTOR_TYPE_UNIFORM_BUFFER poolSizes,
      imageSamplersLeft = descriptorCount VK_DESCRIPTOR_TYPE_COMBINED_IMAGE_SAMPLER poolSizes,
      allocated = 0\<rparr>"

definition bindingsOfType :: "VkDescriptorType \<Rightarrow> VkDescriptorSetLayoutBinding list \<Rightarrow> nat" where
  "bindingsOfType t layout = length (filter (\<lambda>b. layout_type b = t) layout)"

definition vkAllocateDescriptorSets ::
  "DescriptorPool \<Rightarrow> VkDescriptorSetLayoutBinding list \<Rightarrow>
   error + (DescriptorPool \<times> VkDescriptorSet)" where
  "vkAllocateDescriptorSets pool layout =
     (let u = bindingsOfType VK_DESCRIPTOR_TYPE_UNIFORM_BUFFER layout;
          i = bindingsOfType VK_DESCRIPTOR_TYPE_COMBINED_IMAGE_SAMPLER layout
      in if 1 \<le> setsLeft pool \<and> u \<le> uniformBuffersLeft pool \<and> i \<le> imageSamplersLeft pool
         then Inr (pool\<lparr>setsLeft := setsLeft pool - 1,
                         uniformBuffersLeft := uniformBuffersLeft pool - u,
                         imageSamplersLeft := imageSamplersLeft pool - i,
                         allocated := allocated pool + 1\<rparr>,
                   DescriptorSetHandle (allocated pool))
         else Inl VK_ERROR_OUT_OF_POOL_MEMORY)"

definition writeDescriptorSet ::
  "VkDescriptorSet \<Rightarrow> VkDescriptorType \<Rightarrow> nat \<Rightarrow> Descriptor \<Rightarrow> VkWriteDescriptorSet" where
  "writeDescriptorSet ds t b d = \<lparr>dstSet = ds, descriptorType = t, dstBinding = b, info = d\<rparr>"

definition vkUpdateDescriptorSets ::
  "(VkDescriptorSet \<Rightarrow> nat \<Rightarrow> Descriptor option) \<Rightarrow> VkWriteDescriptorSet list \<Rightarrow>
   (VkDescriptorSet \<Rightarrow> nat \<Rightarrow> Descriptor option)" where
  "vkUpdateDescriptorSets sets writes =
     foldl (\<lambda>acc wr. acc(dstSet wr := (acc (dstSet wr))(dstBinding wr \<mapsto> info wr))) sets writes"

text \<open>The vector \<open>mats\<close> of \<open>setupDescriptorSets\<close> holds the three material pointers; a
  pointer is the member it reads and writes.\<close>

datatype MaterialPtr = materials_plastic | materials_metal | materials_stone

fun deref :: "MaterialPtr \<Rightarrow> VulkanExample \<Rightarrow> PBRMaterial" where
  "deref materials_plastic s = plastic (materials s)"
| "deref materials_metal s = metal (materials s)"
| "deref materials_stone s = stone (materials s)"

fun assign :: "MaterialPtr \<Rightarrow> PBRMaterial \<Rightarrow> VulkanExample \<Rightarrow> VulkanExample" where
  "assign materials_plastic m s = s\<lparr>materials := (materials s)\<lparr>plastic := m\<rparr>\<rparr>"
| "assign materials_metal m s = s\<lparr>materials := (materials s)\<lparr>metal := m\<rparr>\<rparr>"
| "assign materials_stone m s = s\<lparr>materials := (materials s)\<lparr>stone := m\<rparr>\<rparr>"

text \<open>The body of the loop over \<open>mats\<close>: allocate the set of the material, which has no
  descriptors yet, then write its seven bindings.\<close>

definition setupMaterial :: "MaterialPtr \<Rightarrow> VulkanExample \<Rightarrow> error + VulkanExample" where
  "setupMaterial mat s =
     (case vkAllocateDescriptorSets (descriptorPool s) (descriptorSetLayout s) of
        Inl e \<Rightarrow> Inl e
      | Inr (pool, h) \<Rightarrow>
          (let s0 = s\<lparr>descriptorPool := pool,
                      descriptorSets := (descriptorSets s)(h := Map.empty)\<rparr>;
               s1 = assign mat ((deref mat s0)\<lparr>descriptorSet := h\<rparr>) s0;
               m = deref mat s1;
               writeDescriptorSets =
                 [writeDescriptorSet (descriptorSet m) VK_DESCRIPTOR_TYPE_UNIFORM_BUFFER 0
                    (BufferDescriptor uniformBuffers_object),
                  writeDescriptorSet (descriptorSet m) VK_DESCRIPTOR_TYPE_UNIFORM_BUFFER 1
                    (BufferDescriptor uniformBuffers_params),
                  writeDescriptorSet (descriptorSet m) VK_DESCRIPTOR_TYPE_COMBINED_IMAGE_SAMPLER 2
                    (ImageDescriptor (albedo (textures m))),
                  writeDescriptorSet (descriptorSet m) VK_DESCRIPTOR_TYPE_COMBINED_IMAGE_SAMPLER 3
                    (ImageDescriptor (normal (textures m))),
                  writeDescriptorSet (descriptorSet m) VK_DESCRIPTOR_TYPE_COMBINED_IMAGE_SAMPLER 4
                    (ImageDescriptor (Textures.roughness (textures m))),
                  writeDescriptorSet (descriptorSet m) VK_DESCRIPTOR_TYPE_COMBINED_IMAGE_SAMPLER 5
                    (ImageDescriptor (Textures.metallic (textures m))),
                  writeDescriptorSet (descriptorSet m) VK_DESCRIPTOR_TYPE_COMBINED_IMAGE_SAMPLER 6
                    (ImageDescriptor (ao (textures m)))]
           in Inr (s1\<lparr>descriptorSets :=
                        vkUpdateDescriptorSets (descriptorSets s1) writeDescriptorSets\<rparr>)))"

fun setupMaterials :: "MaterialPtr list \<Rightarrow> VulkanExample \<Rightarrow> error + VulkanExample" where
  "setupMaterials [] s = Inr s"
| "setupMaterials (mat # mats) s =
     (case setupMaterial mat s of
        Inl e \<Rightarrow> Inl e
      | Inr s' \<Rightarrow> setupMaterials mats s')"

definition setupDescriptorSets :: "VulkanExample \<Rightarrow> error + VulkanExample" where
  "setupDescriptorSets s =
     (let poolSizes =
            [(VK_DESCRIPTOR_TYPE_UNIFORM_BUFFER, 4 * 3),
             (VK_DESCRIPTOR_TYPE_COMBINED_IMAGE_SAMPLER, 5 * 3)];
          s1 = s\<lparr>descriptorPool := vkCreateDescriptorPool poolSizes 3\<rparr>;
          mats = [materials_plastic, materials_metal, materials_stone]
      in setupMaterials mats s1)"

text \<open>\<open>prepare\<close>, after the base class has prepared the swap chain and the command buffers.
  \<open>preparePipelines\<close> creates the pipeline, which the state does not hold.\<close>

definition prepare ::
  "(string \<Rightarrow> float \<Rightarrow> Model) \<Rightarrow> string \<Rightarrow> VulkanExample \<Rightarrow> error + VulkanExample" where
  "prepare loadFromFile assetPath s =
     (let s1 = loadAssets loadFromFile assetPath s;
          s2 = prepareUniformBuffers s1;
          s3 = setupDescriptorSetLayout s2
      in case setupDescriptorSets s3 of
           Inl e \<Rightarrow> Inl e
         | Inr s4 \<Rightarrow>
             (case buildCommandBuffers s4 of
                Inl e \<Rightarrow> Inl e
              | Inr s5 \<Rightarrow> Inr (s5\<lparr>prepared := True\<rparr>)))"

subsection \<open>Reading a command buffer\<close>

fun isDrawIndexed :: "Command \<Rightarrow> bool" where
  "isDrawIndexed (vkCmdDrawIndexed n i f v fi) = True"
| "isDrawIndexed c = False"

text \<open>The commands that one pass of the recording loop emits for the object \<open>obj\<close> and the
  frame buffer \<open>i\<close>, written out.\<close>

definition recorded :: "VulkanExample \<Rightarrow> Model \<Rightarrow> nat \<Rightarrow> Command list" where
  "recorded s obj i =
     [vkCmdBeginRenderPass i, vkCmdSetViewport, vkCmdSetScissor, vkCmdBindPipeline,
      vkCmdBindVertexBuffers (vertices obj), vkCmdBindIndexBuffer (indices obj),
      vkCmdBindDescriptorSets (descriptorSet (plastic (materials s))),
      vkCmdPushConstants VK_SHADER_STAGE_VERTEX_BIT \<lparr>x = 0, y = 0, z = 0\<rparr>,
      vkCmdDrawIndexed (indexCount obj) 1 0 0 0,
      vkCmdBindDescriptorSets (descriptorSet (metal (materials s))),
      vkCmdPushConstants VK_SHADER_STAGE_VERTEX_BIT \<lparr>x = 0, y = 0, z = 2.5\<rparr>,
      vkCmdDrawIndexed (indexCount obj) 1 0 0 0,
      vkCmdBindDescriptorSets (descriptorSet (stone (materials s))),
      vkCmdPushConstants VK_SHADER_STAGE_VERTEX_BIT \<lparr>x = 0, y = 0, z = - 2.5\<rparr>,
      vkCmdDrawIndexed (indexCount obj) 1 0 0 0,
      vkCmdEndRenderPass]"

subsection \<open>Concrete states\<close>

text \<open>A mesh loader for the examples: the buffers and the index count of a mesh are
  numbered after the length of its file name.\<close>

definition sampleLoader :: "string \<Rightarrow> float \<Rightarrow> Model" where
  "sampleLoader f scale =
     \<lparr>vertices = BufferHandle (2 * length f),
      indices = BufferHandle (2 * length f + 1),
      indexCount = word_of_nat (3 * length f)\<rparr>"

text \<open>The example after its constructor, with \<open>imageCount\<close> empty command buffers from the
  base class: no object loaded, index \<open>0\<close>, roughness and metallic \<open>1.0\<close>, paused. The
  members that the constructor leaves unassigned hold placeholders.\<close>

definition constructed :: "nat \<Rightarrow> VulkanExample" where
  "constructed imageCount =
     (let noModel = \<lparr>vertices = BufferHandle 0, indices = BufferHandle 0, indexCount = 0\<rparr>;
          noMaterial = PBRMaterial_new [] [] PBRTextureInfo_default PBRTextureInfo_default
            PBRTextureInfo_default PBRTextureInfo_default PBRTextureInfo_default;
          params = \<lparr>lights = replicate 4 (glm_vec4 0 0 0 0), roughness = 1.0, metallic = 1.0\<rparr>
      in \<lparr>models = \<lparr>skybox = noModel, objects = [], objectIndex = 0\<rparr>,
          materials = \<lparr>plastic = noMaterial, metal = noMaterial, stone = noMaterial\<rparr>,
          uboParams = params,
          params_mapped = params,
          object_rotation = 0,
          descriptorSetLayout = [],
          descriptorPool = vkCreateDescriptorPool [] 0,
          descriptorSets = (\<lambda>ds. Map.empty),
          drawCmdBuffers = replicate imageCount [],
          paused = True,
          timer = 0,
          prepared = False\<rparr>)"

text \<open>The same with the assets loaded: three objects, two command buffers.\<close>

definition loaded :: VulkanExample where
  "loaded = loadAssets sampleLoader ''data/'' (constructed 2)"

text \<open>A state whose object vector has \<open>2 ^ 32\<close> entries, one more than a \<^verbatim>\<open>uint32_t\<close> can
  count, and whose active object is the second one.\<close>

definition oversized :: VulkanExample where
  "oversized =
     (constructed 1)
       \<lparr>models := \<lparr>skybox = sampleLoader ''cube.obj'' 1.0,
                    objects = replicate (2 ^ 32) (sampleLoader ''geosphere.obj'' 0.05),
                    objectIndex = 1\<rparr>\<rparr>"

text \<open>A choice of six different key codes.\<close>

definition sampleKeyCodes :: KeyCodes where
  "sampleKeyCodes =
     \<lparr>KEY_SPACE = 0x20, GAMEPAD_BUTTON_X = 0x1002,
      KEY_F2 = 0x71, KEY_F3 = 0x72, KEY_F4 = 0x73, KEY_F5 = 0x74\<rparr>"

section \<open>Properties\<close>

subsection \<open>Clamping\<close>

lemma glm_clamp_bounds: "lo \<le> hi \<Longrightarrow> lo \<le> glm_clamp v lo hi \<and> glm_clamp v lo hi \<le> hi"
  by (simp add: glm_clamp_def glm_min_def glm_max_def)

lemma roughness_changeRoughnessFactor:
  "UBOParams.roughness (uboParams (changeRoughnessFactor s d)) =
     glm_clamp (UBOParams.roughness (uboParams s) + d) 0.05 1.0"
  by (simp add: changeRoughnessFactor_def updateParams_def)

lemma metallic_changeMetallicFactor:
  "UBOParams.metallic (uboParams (changeMetallicFactor s d)) =
     glm_clamp (UBOParams.metallic (uboParams s) + d) 0.0 1.0"
  by (simp add: changeMetallicFactor_def updateParams_def)

lemma roughness_run:
  "0.05 \<le> UBOParams.roughness (uboParams s) \<and> UBOParams.roughness (uboParams s) \<le> 1.0 \<Longrightarrow>
   0.05 \<le> UBOParams.roughness (uboParams (foldl changeRoughnessFactor s ds)) \<and>
   UBOParams.roughness (uboParams (foldl changeRoughnessFactor s ds)) \<le> 1.0"
proof (induction ds arbitrary: s)
  case Nil
  then show ?case by simp
next
  case (Cons d ds)
  have "(0.05::real) \<le> 1.0" by simp
  from glm_clamp_bounds[OF this]
  have "0.05 \<le> UBOParams.roughness (uboParams (changeRoughnessFactor s d)) \<and>
        UBOParams.roughness (uboParams (changeRoughnessFactor s d)) \<le> 1.0"
    by (simp only: roughness_changeRoughnessFactor)
  from Cons.IH[OF this] show ?case by simp
qed

lemma metallic_run:
  "0.0 \<le> UBOParams.metallic (uboParams s) \<and> UBOParams.metallic (uboParams s) \<le> 1.0 \<Longrightarrow>
   0.0 \<le> UBOParams.metallic (uboParams (foldl changeMetallicFactor s ds)) \<and>
   UBOParams.metallic (uboParams (foldl changeMetallicFactor s ds)) \<le> 1.0"
proof (induction ds arbitrary: s)
  case Nil
  then show ?case by simp
next
  case (Cons d ds)
  have "(0.0::real) \<le> 1.0" by simp
  from glm_clamp_bounds[OF this]
  have "0.0 \<le> UBOParams.metallic (uboParams (changeMetallicFactor s d)) \<and>
        UBOParams.metallic (uboParams (changeMetallicFactor s d)) \<le> 1.0"
    by (simp only: metallic_changeMetallicFactor)
  from Cons.IH[OF this] show ?case by simp
qed

text \<open>
  C1. Start with a roughness between \<open>0.05\<close> and \<open>1.0\<close> and call \<open>changeRoughnessFactor\<close>
  with the deltas of any finite list, one after the other. After each call, that is after
  the first \<open>n\<close> deltas for every \<open>n\<close> up to the length of the list, the roughness is
  still between \<open>0.05\<close> and \<open>1.0\<close>.
\<close>

theorem roughness_stays_in_range:
  assumes "0.05 \<le> UBOParams.roughness (uboParams s)"
    and "UBOParams.roughness (uboParams s) \<le> 1.0"
  shows "\<forall>n \<le> length deltas.
     0.05 \<le> UBOParams.roughness (uboParams (foldl changeRoughnessFactor s (take n deltas))) \<and>
     UBOParams.roughness (uboParams (foldl changeRoughnessFactor s (take n deltas))) \<le> 1.0"
  using assms roughness_run by blast

text \<open>An instance: from the initial roughness \<open>1.0\<close>, two steps up, two steps down, and a
  step far below the range.\<close>

theorem roughness_stays_in_range_witness:
  "0.05 \<le> UBOParams.roughness (uboParams (constructed 2)) \<and>
   UBOParams.roughness (uboParams (constructed 2)) \<le> 1.0 \<and>
   0.05 \<le> UBOParams.roughness (uboParams
     (foldl changeRoughnessFactor (constructed 2) [0.01, 0.01, - 0.01, - 0.01, - 7])) \<and>
   UBOParams.roughness (uboParams
     (foldl changeRoughnessFactor (constructed 2) [0.01, 0.01, - 0.01, - 0.01, - 7])) \<le> 1.0"
proof -
  have lo: "0.05 \<le> UBOParams.roughness (uboParams (constructed 2))"
    by (simp add: constructed_def Let_def)
  have hi: "UBOParams.roughness (uboParams (constructed 2)) \<le> 1.0"
    by (simp add: constructed_def Let_def)
  have "5 \<le> length [0.01, 0.01, - 0.01, - 0.01, - 7 :: real]"
    by simp
  with roughness_stays_in_range[OF lo hi, of "[0.01, 0.01, - 0.01, - 0.01, - 7]"]
  have "0.05 \<le> UBOParams.roughness (uboParams
      (foldl changeRoughnessFactor (constructed 2) (take 5 [0.01, 0.01, - 0.01, - 0.01, - 7]))) \<and>
    UBOParams.roughness (uboParams
      (foldl changeRoughnessFactor (constructed 2) (take 5 [0.01, 0.01, - 0.01, - 0.01, - 7])))
      \<le> 1.0"
    by blast
  with lo hi show ?thesis by simp
qed

text \<open>
  C2. Start with a metallic factor between \<open>0.0\<close> and \<open>1.0\<close> and call
  \<open>changeMetallicFactor\<close> with the deltas of any finite list, one after the other. After
  each call the metallic factor is still between \<open>0.0\<close> and \<open>1.0\<close>.
\<close>

theorem metallic_stays_in_range:
  assumes "0.0 \<le> UBOParams.metallic (uboParams s)"
    and "UBOParams.metallic (uboParams s) \<le> 1.0"
  shows "\<forall>n \<le> length deltas.
     0.0 \<le> UBOParams.metallic (uboParams (foldl changeMetallicFactor s (take n deltas))) \<and>
     UBOParams.metallic (uboParams (foldl changeMetallicFactor s (take n deltas))) \<le> 1.0"
  using assms metallic_run by blast

text \<open>An instance: from the initial metallic factor \<open>1.0\<close>, a step up, two steps down, and a
  step far above the range.\<close>

theorem metallic_stays_in_range_witness:
  "0.0 \<le> UBOParams.metallic (uboParams (constructed 2)) \<and>
   UBOParams.metallic (uboParams (constructed 2)) \<le> 1.0 \<and>
   0.0 \<le> UBOParams.metallic (uboParams
     (foldl changeMetallicFactor (constructed 2) [0.01, - 0.01, - 0.01, 12])) \<and>
   UBOParams.metallic (uboParams
     (foldl changeMetallicFactor (constructed 2) [0.01, - 0.01, - 0.01, 12])) \<le> 1.0"
proof -
  have lo: "0.0 \<le> UBOParams.metallic (uboParams (constructed 2))"
    by (simp add: constructed_def Let_def)
  have hi: "UBOParams.metallic (uboParams (constructed 2)) \<le> 1.0"
    by (simp add: constructed_def Let_def)
  have "4 \<le> length [0.01, - 0.01, - 0.01, 12 :: real]"
    by simp
  with metallic_stays_in_range[OF lo hi, of "[0.01, - 0.01, - 0.01, 12]"]
  have "0.0 \<le> UBOParams.metallic (uboParams
      (foldl changeMetallicFactor (constructed 2) (take 4 [0.01, - 0.01, - 0.01, 12]))) \<and>
    UBOParams.metallic (uboParams
      (foldl changeMetallicFactor (constructed 2) (take 4 [0.01, - 0.01, - 0.01, 12]))) \<le> 1.0"
    by blast
  with lo hi show ?thesis by simp
qed

subsection \<open>The recording loop\<close>

lemma activeObject_valid:
  "unat (objectIndex (models s)) < length (objects (models s)) \<Longrightarrow>
   activeObject s = Inr (objects (models s) ! unat (objectIndex (models s)))"
  by (simp add: activeObject_def)

lemma recordCommandBuffer_valid:
  "activeObject s = Inr obj \<Longrightarrow> recordCommandBuffer s i = Inr (recorded s obj i)"
  by (simp add: recordCommandBuffer_def recorded_def glm_vec3_def)

lemma recordAll_valid:
  "activeObject s = Inr obj \<Longrightarrow> recordAll s js = Inr (map (recorded s obj) js)"
  by (induction js) (simp_all add: recordCommandBuffer_valid)

lemma buildCommandBuffers_valid:
  assumes "unat (objectIndex (models s)) < length (objects (models s))"
  shows "buildCommandBuffers s =
     Inr (s\<lparr>drawCmdBuffers :=
       map (recorded s (objects (models s) ! unat (objectIndex (models s))))
         [0 ..< length (drawCmdBuffers s)]\<rparr>)"
  by (simp add: buildCommandBuffers_def recordAll_valid[OF activeObject_valid[OF assms]])

subsection \<open>Cycling through the objects\<close>

text \<open>With at least one object, \<open>toggleObject\<close> succeeds: the index it stores is \<open>0\<close> or below
  the truncated size, hence inside the vector, so the recording finds its object.\<close>

lemma toggleObject_result:
  assumes "objects (models s) \<noteq> []"
  shows "\<exists>s'. toggleObject s = Inr s' \<and> objects (models s') = objects (models s) \<and>
     objectIndex (models s') =
       (if objectIndex (models s) + 1 \<ge> word_of_nat (length (objects (models s))) then 0
        else objectIndex (models s) + 1) \<and>
     unat (objectIndex (models s')) < length (objects (models s))"
proof -
  let ?n = "length (objects (models s))"
  let ?i' = "if objectIndex (models s) + 1 \<ge> (word_of_nat ?n :: uint32_t) then 0
        else objectIndex (models s) + 1"
  let ?s1 = "updateUniformBuffers (s\<lparr>models := (models s)\<lparr>objectIndex := ?i'\<rparr>\<rparr>)"
  have n: "0 < ?n" using assms by simp
  have "unat ?i' < ?n"
  proof (cases "objectIndex (models s) + 1 \<ge> (word_of_nat ?n :: uint32_t)")
    case True
    then show ?thesis using n by simp
  next
    case False
    then have "objectIndex (models s) + 1 < (word_of_nat ?n :: uint32_t)" by simp
    then have "unat (objectIndex (models s) + 1) < unat (word_of_nat ?n :: uint32_t)"
      by (simp add: word_less_nat_alt)
    also have "unat (word_of_nat ?n :: uint32_t) \<le> ?n"
      by (simp add: unat_of_nat)
    finally show ?thesis using False by simp
  qed
  then have v: "unat (objectIndex (models ?s1)) < length (objects (models ?s1))"
    by (simp add: updateUniformBuffers_def)
  from buildCommandBuffers_valid[OF v] obtain bufs where
    "buildCommandBuffers ?s1 = Inr (?s1\<lparr>drawCmdBuffers := bufs\<rparr>)" by blast
  then have "toggleObject s = Inr (?s1\<lparr>drawCmdBuffers := bufs\<rparr>)"
    by (simp add: toggleObject_def reBuildCommandBuffers_def Let_def)
  moreover have "objects (models (?s1\<lparr>drawCmdBuffers := bufs\<rparr>)) = objects (models s)"
    by (simp add: updateUniformBuffers_def)
  moreover have "objectIndex (models (?s1\<lparr>drawCmdBuffers := bufs\<rparr>)) = ?i'"
    by (simp add: updateUniformBuffers_def)
  ultimately show ?thesis using \<open>unat ?i' < ?n\<close> by auto
qed

text \<open>When the size of the vector fits a \<^verbatim>\<open>uint32_t\<close>, the cast keeps it and the step is
  the successor modulo the size.\<close>

lemma toggleObject_mod:
  assumes "length (objects (models s)) < 2 ^ 32"
    and "unat (objectIndex (models s)) < length (objects (models s))"
  shows "\<exists>s'. toggleObject s = Inr s' \<and> objects (models s') = objects (models s) \<and>
     unat (objectIndex (models s')) =
       (unat (objectIndex (models s)) + 1) mod length (objects (models s))"
proof -
  let ?n = "length (objects (models s))"
  let ?i = "objectIndex (models s)"
  have ne: "objects (models s) \<noteq> []" using assms(2) by auto
  have un: "unat (word_of_nat ?n :: uint32_t) = ?n"
    using assms(1) by (simp add: unat_of_nat)
  have "unat ?i + 1 < 2 ^ 32" using assms by simp
  then have ui: "unat (?i + 1) = unat ?i + 1"
    by (simp add: unat_word_ariths)
  have "(?n \<le> unat ?i + 1) = (unat ?i + 1 = ?n)"
    using assms(2) by arith
  then have ge: "(?i + 1 \<ge> (word_of_nat ?n :: uint32_t)) = (unat ?i + 1 = ?n)"
    by (simp add: word_le_nat_alt un ui)
  from toggleObject_result[OF ne] obtain s' where
    s': "toggleObject s = Inr s'" "objects (models s') = objects (models s)"
    "objectIndex (models s') = (if ?i + 1 \<ge> word_of_nat ?n then 0 else ?i + 1)" by blast
  have "unat (objectIndex (models s')) = (unat ?i + 1) mod ?n"
  proof (cases "unat ?i + 1 = ?n")
    case True
    then show ?thesis using s'(3) ge by simp
  next
    case False
    then have "unat ?i + 1 < ?n" using assms(2) by simp
    then show ?thesis using s'(3) ge False ui by simp
  qed
  then show ?thesis using s' by blast
qed

lemma toggleObject_times_mod:
  assumes "length (objects (models s)) < 2 ^ 32"
    and "unat (objectIndex (models s)) < length (objects (models s))"
  shows "\<exists>s'. toggleObject_times k s = Inr s' \<and> objects (models s') = objects (models s) \<and>
     unat (objectIndex (models s')) =
       (unat (objectIndex (models s)) + k) mod length (objects (models s))"
  using assms
proof (induction k arbitrary: s)
  case 0
  then show ?case by simp
next
  case (Suc k)
  from toggleObject_mod[OF Suc.prems] obtain s1 where
    s1: "toggleObject s = Inr s1" "objects (models s1) = objects (models s)"
    "unat (objectIndex (models s1)) =
       (unat (objectIndex (models s)) + 1) mod length (objects (models s))" by blast
  have pos: "0 < length (objects (models s))" using Suc.prems(2) by arith
  have a: "length (objects (models s1)) < 2 ^ 32" using s1(2) Suc.prems(1) by simp
  have b: "unat (objectIndex (models s1)) < length (objects (models s1))"
    using s1(2,3) pos by simp
  from Suc.IH[OF a b] obtain s' where
    s': "toggleObject_times k s1 = Inr s'" "objects (models s') = objects (models s1)"
    "unat (objectIndex (models s')) =
       (unat (objectIndex (models s1)) + k) mod length (objects (models s1))" by blast
  have "unat (objectIndex (models s')) =
       (unat (objectIndex (models s)) + Suc k) mod length (objects (models s))"
    using s'(3) s1(2,3) by (simp add: mod_add_left_eq)
  then show ?case using s1 s' by simp
qed

text \<open>When the size is a multiple of \<open>2 ^ 32\<close>, the cast gives \<open>0\<close>, the comparison always
  holds, and every step stores \<open>0\<close>.\<close>

lemma toggleObject_times_truncated:
  assumes "objects (models s) \<noteq> []"
    and "(word_of_nat (length (objects (models s))) :: uint32_t) = 0"
  shows "\<exists>s'. toggleObject_times (Suc k) s = Inr s' \<and> objects (models s') = objects (models s) \<and>
     objectIndex (models s') = 0"
  using assms
proof (induction k arbitrary: s)
  case 0
  from toggleObject_result[OF 0(1)] 0(2) show ?case by auto
next
  case (Suc k)
  from toggleObject_result[OF Suc.prems(1)] Suc.prems(2) obtain s1 where
    s1: "toggleObject s = Inr s1" "objects (models s1) = objects (models s)" by auto
  from Suc.IH[of s1] s1 Suc.prems obtain s' where
    "toggleObject_times (Suc k) s1 = Inr s'" "objects (models s') = objects (models s1)"
     "objectIndex (models s') = 0" by auto
  then show ?case using s1 by simp
qed

lemma loaded_objects:
  "objects (models loaded) =
     [sampleLoader ''data/models/geosphere.obj'' 0.05,
      sampleLoader ''data/models/roundedcube.dae'' 0.05,
      sampleLoader ''data/models/venus.fbx'' 0.15]"
  by (simp add: loaded_def loadAssets_def constructed_def Let_def OBJ_DIM_def)

lemma loaded_objectIndex: "objectIndex (models loaded) = 0"
  by (simp add: loaded_def loadAssets_def constructed_def Let_def)

lemma loaded_drawCmdBuffers: "drawCmdBuffers loaded = [[], []]"
  by (simp add: loaded_def loadAssets_def constructed_def Let_def numeral_2_eq_2)

lemma oversized_models:
  "objects (models oversized) = replicate (2 ^ 32) (sampleLoader ''geosphere.obj'' 0.05)"
  "objectIndex (models oversized) = 1"
  by (simp_all add: oversized_def)

text \<open>
  C3, as amended. Take a state with a non-empty object vector of fewer than \<open>2 ^ 32\<close>
  objects and a valid active index. Running \<open>toggleObject\<close> as many times as there are
  objects succeeds and leaves the active index where it started.
\<close>

theorem toggleObject_cycle:
  assumes "objects (models s) \<noteq> []"
    and "length (objects (models s)) < 2 ^ 32"
    and "unat (objectIndex (models s)) < length (objects (models s))"
  shows "\<exists>s'. toggleObject_times (length (objects (models s))) s = Inr s' \<and>
     objectIndex (models s') = objectIndex (models s)"
proof -
  from toggleObject_times_mod[OF assms(2,3)] obtain s' where
    s': "toggleObject_times (length (objects (models s))) s = Inr s'"
    "unat (objectIndex (models s')) =
       (unat (objectIndex (models s)) + length (objects (models s))) mod length (objects (models s))"
    by blast
  from s'(2) assms(3) have "unat (objectIndex (models s')) = unat (objectIndex (models s))"
    by simp
  then have "objectIndex (models s') = objectIndex (models s)"
    by (simp add: word_unat_eq_iff)
  with s'(1) show ?thesis by blast
qed

text \<open>An instance: the three loaded objects, starting at the first.\<close>

theorem toggleObject_cycle_witness:
  "objects (models loaded) \<noteq> [] \<and>
   length (objects (models loaded)) < 2 ^ 32 \<and>
   unat (objectIndex (models loaded)) < length (objects (models loaded)) \<and>
   (\<exists>s'. toggleObject_times (length (objects (models loaded))) loaded = Inr s' \<and>
      objectIndex (models s') = objectIndex (models loaded))"
proof -
  have h1: "objects (models loaded) \<noteq> []"
    by (simp add: loaded_objects)
  have h2: "length (objects (models loaded)) < 2 ^ 32"
    by (simp add: loaded_objects)
  have h3: "unat (objectIndex (models loaded)) < length (objects (models loaded))"
    by (simp add: loaded_objects loaded_objectIndex)
  from toggleObject_cycle[OF h1 h2 h3] h1 h2 h3 show ?thesis by blast
qed

text \<open>
  C3 as stated, for every size, fails. With \<open>2 ^ 32\<close> objects and the second one active,
  the index is valid, the cast of the size is \<open>0\<close>, and after \<open>2 ^ 32\<close> steps the index is \<open>0\<close>,
  not \<open>1\<close>.
\<close>

theorem toggleObject_cycle_oversized:
  "objects (models oversized) \<noteq> [] \<and>
   unat (objectIndex (models oversized)) < length (objects (models oversized)) \<and>
   objectIndex (models oversized) = 1 \<and>
   map_sum id (objectIndex \<circ> models)
     (toggleObject_times (length (objects (models oversized))) oversized) = Inr 0"
proof -
  have ne: "objects (models oversized) \<noteq> []"
    by (simp add: oversized_models)
  have valid: "unat (objectIndex (models oversized)) < length (objects (models oversized))"
    by (simp add: oversized_models)
  have cast: "(word_of_nat (length (objects (models oversized))) :: uint32_t) = 0"
    by (simp add: oversized_models)
  have len: "length (objects (models oversized)) = Suc 4294967295"
    by (simp add: oversized_models)
  from toggleObject_times_truncated[OF ne cast, of 4294967295] obtain s' where
    "toggleObject_times (Suc 4294967295) oversized = Inr s'" "objectIndex (models s') = 0"
    by blast
  then have "map_sum id (objectIndex \<circ> models)
     (toggleObject_times (length (objects (models oversized))) oversized) = Inr 0"
    by (simp add: len)
  with ne valid show ?thesis by (simp add: oversized_models)
qed

text \<open>
  C4, as amended. Take a state with a non-empty object vector and a valid active index.
  \<open>toggleObject\<close> succeeds, keeps the vector, and leaves a valid active index. When the
  vector has fewer than \<open>2 ^ 32\<close> objects, the new index is the old one plus one modulo the
  number of objects, so it wraps to \<open>0\<close> at the size.
\<close>

theorem toggleObject_index_valid:
  assumes "objects (models s) \<noteq> []"
    and "unat (objectIndex (models s)) < length (objects (models s))"
  shows "\<exists>s'. toggleObject s = Inr s' \<and> objects (models s') = objects (models s) \<and>
     unat (objectIndex (models s')) < length (objects (models s')) \<and>
     (length (objects (models s)) < 2 ^ 32 \<longrightarrow>
        unat (objectIndex (models s')) =
          (unat (objectIndex (models s)) + 1) mod length (objects (models s)))"
proof -
  from toggleObject_result[OF assms(1)] obtain s' where
    s': "toggleObject s = Inr s'" "objects (models s') = objects (models s)"
    "unat (objectIndex (models s')) < length (objects (models s))" by blast
  have "length (objects (models s)) < 2 ^ 32 \<longrightarrow>
        unat (objectIndex (models s')) =
          (unat (objectIndex (models s)) + 1) mod length (objects (models s))"
  proof
    assume "length (objects (models s)) < 2 ^ 32"
    from toggleObject_mod[OF this assms(2)] s'(1) show
      "unat (objectIndex (models s')) =
          (unat (objectIndex (models s)) + 1) mod length (objects (models s))" by auto
  qed
  with s' show ?thesis by simp
qed

text \<open>An instance: the three loaded objects, the first one active.\<close>

theorem toggleObject_index_valid_witness:
  "objects (models loaded) \<noteq> [] \<and>
   unat (objectIndex (models loaded)) < length (objects (models loaded)) \<and>
   length (objects (models loaded)) < 2 ^ 32 \<and>
   (\<exists>s'. toggleObject loaded = Inr s' \<and>
      unat (objectIndex (models s')) < length (objects (models s')) \<and>
      unat (objectIndex (models s')) =
        (unat (objectIndex (models loaded)) + 1) mod length (objects (models loaded)))"
proof -
  have h1: "objects (models loaded) \<noteq> []"
    by (simp add: loaded_objects)
  have h2: "unat (objectIndex (models loaded)) < length (objects (models loaded))"
    by (simp add: loaded_objects loaded_objectIndex)
  have h3: "length (objects (models loaded)) < 2 ^ 32"
    by (simp add: loaded_objects)
  from toggleObject_index_valid[OF h1 h2] h1 h2 h3 show ?thesis by blast
qed

text \<open>
  C4 as stated, for every size, fails in its second half. With \<open>2 ^ 32\<close> objects and the
  second one active, \<open>toggleObject\<close> stores \<open>0\<close>, while the index plus one modulo the number
  of objects is \<open>2\<close>.
\<close>

theorem toggleObject_not_modulo_oversized:
  "objects (models oversized) \<noteq> [] \<and>
   unat (objectIndex (models oversized)) < length (objects (models oversized)) \<and>
   map_sum id (unat \<circ> objectIndex \<circ> models) (toggleObject oversized) = Inr 0 \<and>
   (unat (objectIndex (models oversized)) + 1) mod length (objects (models oversized)) = 2"
proof -
  have ne: "objects (models oversized) \<noteq> []"
    by (simp add: oversized_models)
  have cast: "(word_of_nat (length (objects (models oversized))) :: uint32_t) = 0"
    by (simp add: oversized_models)
  from toggleObject_result[OF ne] cast obtain s' where
    "toggleObject oversized = Inr s'" "objectIndex (models s') = 0"
    by auto
  then have "map_sum id (unat \<circ> objectIndex \<circ> models) (toggleObject oversized) = Inr 0"
    by simp
  with ne show ?thesis by (simp add: oversized_models)
qed

subsection \<open>Keys\<close>

text \<open>
  C5. Let the six key codes be pairwise different, as the labels of a \<^verbatim>\<open>switch\<close> are.
  Then \<open>keyPressed\<close> with \<open>KEY_SPACE\<close> or \<open>GAMEPAD_BUTTON_X\<close> is \<open>toggleObject\<close>; with
  \<open>KEY_F2\<close> it is \<open>changeRoughnessFactor\<close> by \<open>-0.01\<close> and with \<open>KEY_F3\<close> by \<open>0.01\<close>;
  with \<open>KEY_F4\<close> it is \<open>changeMetallicFactor\<close> by \<open>-0.01\<close> and with \<open>KEY_F5\<close> by \<open>0.01\<close>;
  with any other key code the state stays as it is.
\<close>

theorem keyPressed_dispatch:
  assumes "distinct [KEY_SPACE k, GAMEPAD_BUTTON_X k, KEY_F2 k, KEY_F3 k, KEY_F4 k, KEY_F5 k]"
  shows "keyPressed k (KEY_SPACE k) s = toggleObject s \<and>
         keyPressed k (GAMEPAD_BUTTON_X k) s = toggleObject s \<and>
         keyPressed k (KEY_F2 k) s = Inr (changeRoughnessFactor s (- 0.01)) \<and>
         keyPressed k (KEY_F3 k) s = Inr (changeRoughnessFactor s 0.01) \<and>
         keyPressed k (KEY_F4 k) s = Inr (changeMetallicFactor s (- 0.01)) \<and>
         keyPressed k (KEY_F5 k) s = Inr (changeMetallicFactor s 0.01) \<and>
         (keyCode \<notin> {KEY_SPACE k, GAMEPAD_BUTTON_X k, KEY_F2 k, KEY_F3 k, KEY_F4 k, KEY_F5 k}
            \<longrightarrow> keyPressed k keyCode s = Inr s)"
proof -
  from assms have d:
    "KEY_SPACE k \<noteq> KEY_F2 k" "GAMEPAD_BUTTON_X k \<noteq> KEY_F2 k"
    "KEY_SPACE k \<noteq> KEY_F3 k" "GAMEPAD_BUTTON_X k \<noteq> KEY_F3 k" "KEY_F2 k \<noteq> KEY_F3 k"
    "KEY_SPACE k \<noteq> KEY_F4 k" "GAMEPAD_BUTTON_X k \<noteq> KEY_F4 k" "KEY_F2 k \<noteq> KEY_F4 k"
    "KEY_F3 k \<noteq> KEY_F4 k"
    "KEY_SPACE k \<noteq> KEY_F5 k" "GAMEPAD_BUTTON_X k \<noteq> KEY_F5 k" "KEY_F2 k \<noteq> KEY_F5 k"
    "KEY_F3 k \<noteq> KEY_F5 k" "KEY_F4 k \<noteq> KEY_F5 k"
    by simp_all
  have 1: "keyPressed k (KEY_SPACE k) s = toggleObject s"
    by (simp add: keyPressed_def)
  have 2: "keyPressed k (GAMEPAD_BUTTON_X k) s = toggleObject s"
    by (simp add: keyPressed_def)
  have 3: "keyPressed k (KEY_F2 k) s = Inr (changeRoughnessFactor s (- 0.01))"
    using d(1,2) by (simp add: keyPressed_def)
  have 4: "keyPressed k (KEY_F3 k) s = Inr (changeRoughnessFactor s 0.01)"
    using d(3,4,5) by (simp add: keyPressed_def)
  have 5: "keyPressed k (KEY_F4 k) s = Inr (changeMetallicFactor s (- 0.01))"
    using d(6,7,8,9) by (simp add: keyPressed_def)
  have 6: "keyPressed k (KEY_F5 k) s = Inr (changeMetallicFactor s 0.01)"
    using d(10,11,12,13,14) by (simp add: keyPressed_def)
  have 7: "keyCode \<notin> {KEY_SPACE k, GAMEPAD_BUTTON_X k, KEY_F2 k, KEY_F3 k, KEY_F4 k, KEY_F5 k}
            \<longrightarrow> keyPressed k keyCode s = Inr s"
    by (simp add: keyPressed_def)
  from 1 2 3 4 5 6 7 show ?thesis by blast
qed

text \<open>An instance: the sample key codes, the loaded example, and the key code \<open>0x57\<close>, which
  is none of the six.\<close>

theorem keyPressed_dispatch_witness:
  "distinct [KEY_SPACE sampleKeyCodes, GAMEPAD_BUTTON_X sampleKeyCodes, KEY_F2 sampleKeyCodes,
     KEY_F3 sampleKeyCodes, KEY_F4 sampleKeyCodes, KEY_F5 sampleKeyCodes] \<and>
   0x57 \<notin> {KEY_SPACE sampleKeyCodes, GAMEPAD_BUTTON_X sampleKeyCodes, KEY_F2 sampleKeyCodes,
     KEY_F3 sampleKeyCodes, KEY_F4 sampleKeyCodes, KEY_F5 sampleKeyCodes} \<and>
   keyPressed sampleKeyCodes 0x20 loaded = toggleObject loaded \<and>
   keyPressed sampleKeyCodes 0x71 loaded = Inr (changeRoughnessFactor loaded (- 0.01)) \<and>
   keyPressed sampleKeyCodes 0x74 loaded = Inr (changeMetallicFactor loaded 0.01) \<and>
   keyPressed sampleKeyCodes 0x57 loaded = Inr loaded"
proof -
  have h: "distinct [KEY_SPACE sampleKeyCodes, GAMEPAD_BUTTON_X sampleKeyCodes,
     KEY_F2 sampleKeyCodes, KEY_F3 sampleKeyCodes, KEY_F4 sampleKeyCodes, KEY_F5 sampleKeyCodes]"
    by (simp add: sampleKeyCodes_def)
  have other: "0x57 \<notin> {KEY_SPACE sampleKeyCodes, GAMEPAD_BUTTON_X sampleKeyCodes,
     KEY_F2 sampleKeyCodes, KEY_F3 sampleKeyCodes, KEY_F4 sampleKeyCodes, KEY_F5 sampleKeyCodes}"
    by (simp add: sampleKeyCodes_def)
  have codes: "KEY_SPACE sampleKeyCodes = 0x20" "KEY_F2 sampleKeyCodes = 0x71"
    "KEY_F5 sampleKeyCodes = 0x74"
    by (simp_all add: sampleKeyCodes_def)
  from keyPressed_dispatch[OF h, of loaded "0x57"] other
  have "keyPressed sampleKeyCodes (KEY_SPACE sampleKeyCodes) loaded = toggleObject loaded"
    "keyPressed sampleKeyCodes (KEY_F2 sampleKeyCodes) loaded =
       Inr (changeRoughnessFactor loaded (- 0.01))"
    "keyPressed sampleKeyCodes (KEY_F5 sampleKeyCodes) loaded =
       Inr (changeMetallicFactor loaded 0.01)"
    "keyPressed sampleKeyCodes 0x57 loaded = Inr loaded"
    by blast+
  then show ?thesis using h other by (simp only: codes) blast
qed

subsection \<open>The recorded draws\<close>

text \<open>
  C6. When the active index is valid, \<open>buildCommandBuffers\<close> succeeds and keeps the number
  of command buffers. Each buffer holds, after the render pass begin, the viewport, the
  scissor and the pipeline: the vertex and the index buffer of the active object, and then
  three times a descriptor set, a push constant for the vertex stage and an indexed draw
  of the index count of the active object. The sets are those of plastic, metal and stone,
  in this order; the positions are \<open>(0, 0, 0)\<close>, \<open>(0, 0, 2.5)\<close> and \<open>(0, 0, -2.5)\<close>. The buffer
  has exactly three indexed draws.
\<close>

theorem buildCommandBuffers_three_draws:
  assumes "unat (objectIndex (models s)) < length (objects (models s))"
  shows "\<exists>s'. buildCommandBuffers s = Inr s' \<and>
     length (drawCmdBuffers s') = length (drawCmdBuffers s) \<and>
     (\<forall>i < length (drawCmdBuffers s').
        drawCmdBuffers s' ! i =
          [vkCmdBeginRenderPass i, vkCmdSetViewport, vkCmdSetScissor, vkCmdBindPipeline,
           vkCmdBindVertexBuffers (vertices (objects (models s) ! unat (objectIndex (models s)))),
           vkCmdBindIndexBuffer (indices (objects (models s) ! unat (objectIndex (models s)))),
           vkCmdBindDescriptorSets (descriptorSet (plastic (materials s))),
           vkCmdPushConstants VK_SHADER_STAGE_VERTEX_BIT \<lparr>x = 0, y = 0, z = 0\<rparr>,
           vkCmdDrawIndexed
             (indexCount (objects (models s) ! unat (objectIndex (models s)))) 1 0 0 0,
           vkCmdBindDescriptorSets (descriptorSet (metal (materials s))),
           vkCmdPushConstants VK_SHADER_STAGE_VERTEX_BIT \<lparr>x = 0, y = 0, z = 2.5\<rparr>,
           vkCmdDrawIndexed
             (indexCount (objects (models s) ! unat (objectIndex (models s)))) 1 0 0 0,
           vkCmdBindDescriptorSets (descriptorSet (stone (materials s))),
           vkCmdPushConstants VK_SHADER_STAGE_VERTEX_BIT \<lparr>x = 0, y = 0, z = - 2.5\<rparr>,
           vkCmdDrawIndexed
             (indexCount (objects (models s) ! unat (objectIndex (models s)))) 1 0 0 0,
           vkCmdEndRenderPass] \<and>
        length (filter isDrawIndexed (drawCmdBuffers s' ! i)) = 3)"
  by (simp add: buildCommandBuffers_valid[OF assms] recorded_def)

text \<open>An instance: the loaded example with its two command buffers; the active object is
  the geosphere.\<close>

theorem buildCommandBuffers_three_draws_witness:
  "unat (objectIndex (models loaded)) < length (objects (models loaded)) \<and>
   (\<exists>s'. buildCommandBuffers loaded = Inr s' \<and>
      length (drawCmdBuffers s') = 2 \<and>
      filter isDrawIndexed (drawCmdBuffers s' ! 1) =
        replicate 3
          (vkCmdDrawIndexed (indexCount (sampleLoader ''data/models/geosphere.obj'' 0.05)) 1 0 0 0))"
proof -
  have h: "unat (objectIndex (models loaded)) < length (objects (models loaded))"
    by (simp add: loaded_objects loaded_objectIndex)
  from buildCommandBuffers_three_draws[OF h] obtain s' where
    s': "buildCommandBuffers loaded = Inr s'"
    "length (drawCmdBuffers s') = length (drawCmdBuffers loaded)"
    "\<forall>i < length (drawCmdBuffers s').
        drawCmdBuffers s' ! i =
          [vkCmdBeginRenderPass i, vkCmdSetViewport, vkCmdSetScissor, vkCmdBindPipeline,
           vkCmdBindVertexBuffers
             (vertices (objects (models loaded) ! unat (objectIndex (models loaded)))),
           vkCmdBindIndexBuffer
             (indices (objects (models loaded) ! unat (objectIndex (models loaded)))),
           vkCmdBindDescriptorSets (descriptorSet (plastic (materials loaded))),
           vkCmdPushConstants VK_SHADER_STAGE_VERTEX_BIT \<lparr>x = 0, y = 0, z = 0\<rparr>,
           vkCmdDrawIndexed
             (indexCount (objects (models loaded) ! unat (objectIndex (models loaded)))) 1 0 0 0,
           vkCmdBindDescriptorSets (descriptorSet (metal (materials loaded))),
           vkCmdPushConstants VK_SHADER_STAGE_VERTEX_BIT \<lparr>x = 0, y = 0, z = 2.5\<rparr>,
           vkCmdDrawIndexed
             (indexCount (objects (models loaded) ! unat (objectIndex (models loaded)))) 1 0 0 0,
           vkCmdBindDescriptorSets (descriptorSet (stone (materials loaded))),
           vkCmdPushConstants VK_SHADER_STAGE_VERTEX_BIT \<lparr>x = 0, y = 0, z = - 2.5\<rparr>,
           vkCmdDrawIndexed
             (indexCount (objects (models loaded) ! unat (objectIndex (models loaded)))) 1 0 0 0,
           vkCmdEndRenderPass] \<and>
        length (filter isDrawIndexed (drawCmdBuffers s' ! i)) = 3"
    by blast
  have len: "length (drawCmdBuffers s') = 2"
    using s'(2) by (simp add: loaded_drawCmdBuffers)
  then have "1 < length (drawCmdBuffers s')" by simp
  with s'(3) have "filter isDrawIndexed (drawCmdBuffers s' ! 1) =
        replicate 3
          (vkCmdDrawIndexed (indexCount (sampleLoader ''data/models/geosphere.obj'' 0.05)) 1 0 0 0)"
    by (simp add: loaded_objects loaded_objectIndex numeral_3_eq_3)
  with h s'(1) len show ?thesis by blast
qed

subsection \<open>Materials and descriptor sets\<close>

text \<open>After \<open>setupDescriptorSetLayout\<close>, the pool of \<open>setupDescriptorSets\<close> is large enough
  for the three sets: the three allocations succeed and use up the three sets and the
  fifteen image samplers of the pool.\<close>

lemma setupDescriptorSets_result:
  "\<exists>s'. setupDescriptorSets (setupDescriptorSetLayout s) = Inr s' \<and>
     materials s' =
       \<lparr>plastic = (plastic (materials s))\<lparr>descriptorSet := DescriptorSetHandle 0\<rparr>,
        metal = (metal (materials s))\<lparr>descriptorSet := DescriptorSetHandle 1\<rparr>,
        stone = (stone (materials s))\<lparr>descriptorSet := DescriptorSetHandle 2\<rparr>\<rparr> \<and>
     descriptorSets s' (DescriptorSetHandle 0) =
       [0 \<mapsto> BufferDescriptor uniformBuffers_object,
        1 \<mapsto> BufferDescriptor uniformBuffers_params,
        2 \<mapsto> ImageDescriptor (albedo (textures (plastic (materials s)))),
        3 \<mapsto> ImageDescriptor (normal (textures (plastic (materials s)))),
        4 \<mapsto> ImageDescriptor (Textures.roughness (textures (plastic (materials s)))),
        5 \<mapsto> ImageDescriptor (Textures.metallic (textures (plastic (materials s)))),
        6 \<mapsto> ImageDescriptor (ao (textures (plastic (materials s))))] \<and>
     descriptorSets s' (DescriptorSetHandle 1) =
       [0 \<mapsto> BufferDescriptor uniformBuffers_object,
        1 \<mapsto> BufferDescriptor uniformBuffers_params,
        2 \<mapsto> ImageDescriptor (albedo (textures (metal (materials s)))),
        3 \<mapsto> ImageDescriptor (normal (textures (metal (materials s)))),
        4 \<mapsto> ImageDescriptor (Textures.roughness (textures (metal (materials s)))),
        5 \<mapsto> ImageDescriptor (Textures.metallic (textures (metal (materials s)))),
        6 \<mapsto> ImageDescriptor (ao (textures (metal (materials s))))] \<and>
     descriptorSets s' (DescriptorSetHandle 2) =
       [0 \<mapsto> BufferDescriptor uniformBuffers_object,
        1 \<mapsto> BufferDescriptor uniformBuffers_params,
        2 \<mapsto> ImageDescriptor (albedo (textures (stone (materials s)))),
        3 \<mapsto> ImageDescriptor (normal (textures (stone (materials s)))),
        4 \<mapsto> ImageDescriptor (Textures.roughness (textures (stone (materials s)))),
        5 \<mapsto> ImageDescriptor (Textures.metallic (textures (stone (materials s)))),
        6 \<mapsto> ImageDescriptor (ao (textures (stone (materials s))))] \<and>
     descriptorPool s' =
       \<lparr>setsLeft = 0, uniformBuffersLeft = 6, imageSamplersLeft = 0, allocated = 3\<rparr>"
  by (simp add: setupDescriptorSets_def setupDescriptorSetLayout_def setupMaterial_def
      vkAllocateDescriptorSets_def bindingsOfType_def descriptorSetLayoutBinding_def
      vkCreateDescriptorPool_def descriptorCount_def vkUpdateDescriptorSets_def
      writeDescriptorSet_def Let_def)

lemma materials_prepareUniformBuffers:
  "materials (prepareUniformBuffers s) = materials s"
  by (simp add: prepareUniformBuffers_def updateLights_def updateUniformBuffers_def Let_def)

lemma loadAssets_names:
  "map name [plastic (materials (loadAssets ld path s)), metal (materials (loadAssets ld path s)),
     stone (materials (loadAssets ld path s))] = [''plastic'', ''metal'', ''stone'']"
  by (simp add: loadAssets_def PBRMaterial_new_def Let_def)

lemma loadAssets_textures:
  "distinct (concat (map
     (\<lambda>m. [albedo (textures m), normal (textures m), Textures.roughness (textures m),
           Textures.metallic (textures m), ao (textures m)])
     [plastic (materials (loadAssets ld path s)), metal (materials (loadAssets ld path s)),
      stone (materials (loadAssets ld path s))]))"
  by (simp add: loadAssets_def PBRMaterial_new_def PBRTextureInfo_new_def
      Texture2D_loadFromFile_def Let_def)

text \<open>
  C7. Run the steps of \<open>prepare\<close> up to \<open>setupDescriptorSets\<close> from any state, with any mesh
  loader and asset path. They succeed. The three materials are named plastic, metal and
  stone. Their fifteen textures, five per material (albedo, normal, roughness, metallic,
  ambient occlusion), are all different. Their three descriptor sets are allocated and
  different. The set of each material has exactly seven bindings: binding \<open>0\<close> is the
  buffer of the matrices and binding \<open>1\<close> the buffer of the parameters, the same two buffers
  for all three, and bindings \<open>2\<close> to \<open>6\<close> are the five textures of that material.
\<close>

theorem materials_descriptor_sets:
  "\<exists>s'. setupDescriptorSets
       (setupDescriptorSetLayout
          (prepareUniformBuffers (loadAssets loadFromFile assetPath s))) = Inr s' \<and>
     map name [plastic (materials s'), metal (materials s'), stone (materials s')] =
       [''plastic'', ''metal'', ''stone''] \<and>
     distinct (concat (map
       (\<lambda>m. [albedo (textures m), normal (textures m), Textures.roughness (textures m),
             Textures.metallic (textures m), ao (textures m)])
       [plastic (materials s'), metal (materials s'), stone (materials s')])) \<and>
     distinct (VK_NULL_HANDLE #
       map descriptorSet [plastic (materials s'), metal (materials s'), stone (materials s')]) \<and>
     descriptorSets s' (descriptorSet (plastic (materials s'))) =
       [0 \<mapsto> BufferDescriptor uniformBuffers_object,
        1 \<mapsto> BufferDescriptor uniformBuffers_params,
        2 \<mapsto> ImageDescriptor (albedo (textures (plastic (materials s')))),
        3 \<mapsto> ImageDescriptor (normal (textures (plastic (materials s')))),
        4 \<mapsto> ImageDescriptor (Textures.roughness (textures (plastic (materials s')))),
        5 \<mapsto> ImageDescriptor (Textures.metallic (textures (plastic (materials s')))),
        6 \<mapsto> ImageDescriptor (ao (textures (plastic (materials s'))))] \<and>
     descriptorSets s' (descriptorSet (metal (materials s'))) =
       [0 \<mapsto> BufferDescriptor uniformBuffers_object,
        1 \<mapsto> BufferDescriptor uniformBuffers_params,
        2 \<mapsto> ImageDescriptor (albedo (textures (metal (materials s')))),
        3 \<mapsto> ImageDescriptor (normal (textures (metal (materials s')))),
        4 \<mapsto> ImageDescriptor (Textures.roughness (textures (metal (materials s')))),
        5 \<mapsto> ImageDescriptor (Textures.metallic (textures (metal (materials s')))),
        6 \<mapsto> ImageDescriptor (ao (textures (metal (materials s'))))] \<and>
     descriptorSets s' (descriptorSet (stone (materials s'))) =
       [0 \<mapsto> BufferDescriptor uniformBuffers_object,
        1 \<mapsto> BufferDescriptor uniformBuffers_params,
        2 \<mapsto> ImageDescriptor (albedo (textures (stone (materials s')))),
        3 \<mapsto> ImageDescriptor (normal (textures (stone (materials s')))),
        4 \<mapsto> ImageDescriptor (Textures.roughness (textures (stone (materials s')))),
        5 \<mapsto> ImageDescriptor (Textures.metallic (textures (stone (materials s')))),
        6 \<mapsto> ImageDescriptor (ao (textures (stone (materials s'))))]"
proof -
  let ?l = "loadAssets loadFromFile assetPath s"
  let ?u = "prepareUniformBuffers ?l"
  from setupDescriptorSets_result[of ?u] obtain s' where
    ok: "setupDescriptorSets (setupDescriptorSetLayout ?u) = Inr s'"
    and mats: "materials s' =
       \<lparr>plastic = (plastic (materials ?u))\<lparr>descriptorSet := DescriptorSetHandle 0\<rparr>,
        metal = (metal (materials ?u))\<lparr>descriptorSet := DescriptorSetHandle 1\<rparr>,
        stone = (stone (materials ?u))\<lparr>descriptorSet := DescriptorSetHandle 2\<rparr>\<rparr>"
    and sets: "descriptorSets s' (DescriptorSetHandle 0) =
       [0 \<mapsto> BufferDescriptor uniformBuffers_object,
        1 \<mapsto> BufferDescriptor uniformBuffers_params,
        2 \<mapsto> ImageDescriptor (albedo (textures (plastic (materials ?u)))),
        3 \<mapsto> ImageDescriptor (normal (textures (plastic (materials ?u)))),
        4 \<mapsto> ImageDescriptor (Textures.roughness (textures (plastic (materials ?u)))),
        5 \<mapsto> ImageDescriptor (Textures.metallic (textures (plastic (materials ?u)))),
        6 \<mapsto> ImageDescriptor (ao (textures (plastic (materials ?u))))]"
      "descriptorSets s' (DescriptorSetHandle 1) =
       [0 \<mapsto> BufferDescriptor uniformBuffers_object,
        1 \<mapsto> BufferDescriptor uniformBuffers_params,
        2 \<mapsto> ImageDescriptor (albedo (textures (metal (materials ?u)))),
        3 \<mapsto> ImageDescriptor (normal (textures (metal (materials ?u)))),
        4 \<mapsto> ImageDescriptor (Textures.roughness (textures (metal (materials ?u)))),
        5 \<mapsto> ImageDescriptor (Textures.metallic (textures (metal (materials ?u)))),
        6 \<mapsto> ImageDescriptor (ao (textures (metal (materials ?u))))]"
      "descriptorSets s' (DescriptorSetHandle 2) =
       [0 \<mapsto> BufferDescriptor uniformBuffers_object,
        1 \<mapsto> BufferDescriptor uniformBuffers_params,
        2 \<mapsto> ImageDescriptor (albedo (textures (stone (materials ?u)))),
        3 \<mapsto> ImageDescriptor (normal (textures (stone (materials ?u)))),
        4 \<mapsto> ImageDescriptor (Textures.roughness (textures (stone (materials ?u)))),
        5 \<mapsto> ImageDescriptor (Textures.metallic (textures (stone (materials ?u)))),
        6 \<mapsto> ImageDescriptor (ao (textures (stone (materials ?u))))]"
    by blast
  have u: "materials ?u = materials ?l"
    by (rule materials_prepareUniformBuffers)
  have names: "map name [plastic (materials s'), metal (materials s'), stone (materials s')] =
       [''plastic'', ''metal'', ''stone'']"
    using loadAssets_names[of loadFromFile assetPath s] by (simp add: mats u)
  have texs: "distinct (concat (map
       (\<lambda>m. [albedo (textures m), normal (textures m), Textures.roughness (textures m),
             Textures.metallic (textures m), ao (textures m)])
       [plastic (materials s'), metal (materials s'), stone (materials s')]))"
    using loadAssets_textures[of loadFromFile assetPath s] by (simp add: mats u)
  have handles: "distinct (VK_NULL_HANDLE #
       map descriptorSet [plastic (materials s'), metal (materials s'), stone (materials s')])"
    by (simp add: mats)
  have p: "descriptorSets s' (descriptorSet (plastic (materials s'))) =
       [0 \<mapsto> BufferDescriptor uniformBuffers_object,
        1 \<mapsto> BufferDescriptor uniformBuffers_params,
        2 \<mapsto> ImageDescriptor (albedo (textures (plastic (materials s')))),
        3 \<mapsto> ImageDescriptor (normal (textures (plastic (materials s')))),
        4 \<mapsto> ImageDescriptor (Textures.roughness (textures (plastic (materials s')))),
        5 \<mapsto> ImageDescriptor (Textures.metallic (textures (plastic (materials s')))),
        6 \<mapsto> ImageDescriptor (ao (textures (plastic (materials s'))))]"
    using sets(1) by (simp add: mats)
  have m: "descriptorSets s' (descriptorSet (metal (materials s'))) =
       [0 \<mapsto> BufferDescriptor uniformBuffers_object,
        1 \<mapsto> BufferDescriptor uniformBuffers_params,
        2 \<mapsto> ImageDescriptor (albedo (textures (metal (materials s')))),
        3 \<mapsto> ImageDescriptor (normal (textures (metal (materials s')))),
        4 \<mapsto> ImageDescriptor (Textures.roughness (textures (metal (materials s')))),
        5 \<mapsto> ImageDescriptor (Textures.metallic (textures (metal (materials s')))),
        6 \<mapsto> ImageDescriptor (ao (textures (metal (materials s'))))]"
    using sets(2) by (simp add: mats)
  have st: "descriptorSets s' (descriptorSet (stone (materials s'))) =
       [0 \<mapsto> BufferDescriptor uniformBuffers_object,
        1 \<mapsto> BufferDescriptor uniformBuffers_params,
        2 \<mapsto> ImageDescriptor (albedo (textures (stone (materials s')))),
        3 \<mapsto> ImageDescriptor (normal (textures (stone (materials s')))),
        4 \<mapsto> ImageDescriptor (Textures.roughness (textures (stone (materials s')))),
        5 \<mapsto> ImageDescriptor (Textures.metallic (textures (stone (materials s')))),
        6 \<mapsto> ImageDescriptor (ao (textures (stone (materials s'))))]"
    using sets(3) by (simp add: mats)
  show ?thesis
    by (rule exI[of _ s']) (intro conjI ok names texs handles p m st)
qed

subsection \<open>Lights\<close>

text \<open>
  C8. The lights that \<open>updateLights\<close> leaves in \<open>uboParams\<close> are the same for two states with
  the same \<open>paused\<close> flag and the same \<open>timer\<close>. In a paused state they are the four fixed
  positions, whatever the timer. In a running state the first light has
  \<open>x = sin a * 20\<close> and \<open>z = cos a * 20\<close>, the second has \<open>x = cos a * 20\<close> and
  \<open>y = sin a * 20\<close>, for the angle \<open>a\<close> of \<open>timer * 360\<close> degrees, and the other components
  and lights are the fixed ones.
\<close>

theorem updateLights_function_of_paused_timer:
  "(paused s1 = paused s2 \<and> timer s1 = timer s2 \<longrightarrow>
      lights (uboParams (updateLights s1)) = lights (uboParams (updateLights s2))) \<and>
   (paused p \<longrightarrow> lights (uboParams (updateLights p)) =
      [\<lparr>x = - 15, y = - 7.5, z = - 15, w = 1\<rparr>, \<lparr>x = - 15, y = - 7.5, z = 15, w = 1\<rparr>,
       \<lparr>x = 15, y = - 7.5, z = 15, w = 1\<rparr>, \<lparr>x = 15, y = - 7.5, z = - 15, w = 1\<rparr>]) \<and>
   (\<not> paused r \<longrightarrow> lights (uboParams (updateLights r)) =
      [\<lparr>x = sin (glm_radians (timer r * 360)) * 20, y = - 7.5,
        z = cos (glm_radians (timer r * 360)) * 20, w = 1\<rparr>,
       \<lparr>x = cos (glm_radians (timer r * 360)) * 20,
        y = sin (glm_radians (timer r * 360)) * 20, z = 15, w = 1\<rparr>,
       \<lparr>x = 15, y = - 7.5, z = 15, w = 1\<rparr>, \<lparr>x = 15, y = - 7.5, z = - 15, w = 1\<rparr>])"
  by (simp add: updateLights_def Let_def glm_vec4_def)

text \<open>An instance: two paused states that differ in the roughness, and the running state
  at timer \<open>0\<close>, where the angle is \<open>0\<close>, its sine \<open>0\<close> and its cosine \<open>1\<close>.\<close>

theorem updateLights_function_of_paused_timer_witness:
  "paused (constructed 2) = paused (changeRoughnessFactor (constructed 2) (- 0.5)) \<and>
   timer (constructed 2) = timer (changeRoughnessFactor (constructed 2) (- 0.5)) \<and>
   lights (uboParams (updateLights (constructed 2))) =
     lights (uboParams (updateLights (changeRoughnessFactor (constructed 2) (- 0.5)))) \<and>
   paused (constructed 2) \<and>
   lights (uboParams (updateLights (constructed 2))) =
      [\<lparr>x = - 15, y = - 7.5, z = - 15, w = 1\<rparr>, \<lparr>x = - 15, y = - 7.5, z = 15, w = 1\<rparr>,
       \<lparr>x = 15, y = - 7.5, z = 15, w = 1\<rparr>, \<lparr>x = 15, y = - 7.5, z = - 15, w = 1\<rparr>] \<and>
   \<not> paused ((constructed 2)\<lparr>paused := False\<rparr>) \<and>
   lights (uboParams (updateLights ((constructed 2)\<lparr>paused := False\<rparr>))) =
      [\<lparr>x = 0, y = - 7.5, z = 20, w = 1\<rparr>, \<lparr>x = 20, y = 0, z = 15, w = 1\<rparr>,
       \<lparr>x = 15, y = - 7.5, z = 15, w = 1\<rparr>, \<lparr>x = 15, y = - 7.5, z = - 15, w = 1\<rparr>]"
proof -
  have h1: "paused (constructed 2) = paused (changeRoughnessFactor (constructed 2) (- 0.5)) \<and>
     timer (constructed 2) = timer (changeRoughnessFactor (constructed 2) (- 0.5))"
    by (simp add: changeRoughnessFactor_def updateParams_def)
  have h2: "paused (constructed 2)"
    by (simp add: constructed_def Let_def)
  have h3: "\<not> paused ((constructed 2)\<lparr>paused := False\<rparr>)"
    by simp
  have t: "timer ((constructed 2)\<lparr>paused := False\<rparr>) = 0"
    by (simp add: constructed_def Let_def)
  note inst = updateLights_function_of_paused_timer
    [of "constructed 2" "changeRoughnessFactor (constructed 2) (- 0.5)" "constructed 2"
      "(constructed 2)\<lparr>paused := False\<rparr>"]
  from inst h1 have c1: "lights (uboParams (updateLights (constructed 2))) =
     lights (uboParams (updateLights (changeRoughnessFactor (constructed 2) (- 0.5))))"
    by blast
  from inst h2 have c2: "lights (uboParams (updateLights (constructed 2))) =
      [\<lparr>x = - 15, y = - 7.5, z = - 15, w = 1\<rparr>, \<lparr>x = - 15, y = - 7.5, z = 15, w = 1\<rparr>,
       \<lparr>x = 15, y = - 7.5, z = 15, w = 1\<rparr>, \<lparr>x = 15, y = - 7.5, z = - 15, w = 1\<rparr>]"
    by blast
  from inst h3 have "lights (uboParams (updateLights ((constructed 2)\<lparr>paused := False\<rparr>))) =
      [\<lparr>x = sin (glm_radians (timer ((constructed 2)\<lparr>paused := False\<rparr>) * 360)) * 20,
        y = - 7.5,
        z = cos (glm_radians (timer ((constructed 2)\<lparr>paused := False\<rparr>) * 360)) * 20, w = 1\<rparr>,
       \<lparr>x = cos (glm_radians (timer ((constructed 2)\<lparr>paused := False\<rparr>) * 360)) * 20,
        y = sin (glm_radians (timer ((constructed 2)\<lparr>paused := False\<rparr>) * 360)) * 20,
        z = 15, w = 1\<rparr>,
       \<lparr>x = 15, y = - 7.5, z = 15, w = 1\<rparr>, \<lparr>x = 15, y = - 7.5, z = - 15, w = 1\<rparr>]"
    by blast
  then have c3: "lights (uboParams (updateLights ((constructed 2)\<lparr>paused := False\<rparr>))) =
      [\<lparr>x = 0, y = - 7.5, z = 20, w = 1\<rparr>, \<lparr>x = 20, y = 0, z = 15, w = 1\<rparr>,
       \<lparr>x = 15, y = - 7.5, z = 15, w = 1\<rparr>, \<lparr>x = 15, y = - 7.5, z = - 15, w = 1\<rparr>]"
    by (simp add: t glm_radians_def)
  from h1 h2 h3 c1 c2 c3 show ?thesis by blast
qed

text \<open>
  C10. After \<open>updateLights\<close>, in any state, there are four lights, and the third and the
  fourth are at \<open>(15, -7.5, 15, 1)\<close> and \<open>(15, -7.5, -15, 1)\<close>.
\<close>

theorem updateLights_fixed_lights:
  "length (lights (uboParams (updateLights s))) = 4 \<and>
   lights (uboParams (updateLights s)) ! 2 = \<lparr>x = 15, y = - 7.5, z = 15, w = 1\<rparr> \<and>
   lights (uboParams (updateLights s)) ! 3 = \<lparr>x = 15, y = - 7.5, z = - 15, w = 1\<rparr>"
  by (simp add: updateLights_def Let_def glm_vec4_def)

subsection \<open>What the two factor changes leave alone\<close>

text \<open>
  C9. \<open>changeRoughnessFactor\<close> leaves the metallic factor, the lights and the active object
  index as they are, and \<open>changeMetallicFactor\<close> leaves the roughness, the lights and the
  active object index as they are. More precisely, each of them changes its own factor in
  \<open>uboParams\<close>, copies \<open>uboParams\<close> to the mapped buffer, and changes nothing else of the
  state.
\<close>

theorem change_factor_frame:
  "UBOParams.metallic (uboParams (changeRoughnessFactor s delta)) =
     UBOParams.metallic (uboParams s) \<and>
   lights (uboParams (changeRoughnessFactor s delta)) = lights (uboParams s) \<and>
   objectIndex (models (changeRoughnessFactor s delta)) = objectIndex (models s) \<and>
   changeRoughnessFactor s delta =
     s\<lparr>uboParams := (uboParams s)
          \<lparr>roughness := UBOParams.roughness (uboParams (changeRoughnessFactor s delta))\<rparr>,
       params_mapped := (uboParams s)
          \<lparr>roughness := UBOParams.roughness (uboParams (changeRoughnessFactor s delta))\<rparr>\<rparr> \<and>
   UBOParams.roughness (uboParams (changeMetallicFactor s delta)) =
     UBOParams.roughness (uboParams s) \<and>
   lights (uboParams (changeMetallicFactor s delta)) = lights (uboParams s) \<and>
   objectIndex (models (changeMetallicFactor s delta)) = objectIndex (models s) \<and>
   changeMetallicFactor s delta =
     s\<lparr>uboParams := (uboParams s)
          \<lparr>metallic := UBOParams.metallic (uboParams (changeMetallicFactor s delta))\<rparr>,
       params_mapped := (uboParams s)
          \<lparr>metallic := UBOParams.metallic (uboParams (changeMetallicFactor s delta))\<rparr>\<rparr>"
  by (simp add: changeRoughnessFactor_def changeMetallicFactor_def updateParams_def)

subsection \<open>The whole preparation\<close>

lemma setupMaterial_models:
  "setupMaterial mat s = Inr s' \<Longrightarrow>
   models s' = models s \<and> drawCmdBuffers s' = drawCmdBuffers s"
  by (cases mat)
    (auto simp: setupMaterial_def Let_def split: sum.splits prod.splits)

lemma setupMaterials_models:
  "setupMaterials mats s = Inr s' \<Longrightarrow>
   models s' = models s \<and> drawCmdBuffers s' = drawCmdBuffers s"
proof (induction mats arbitrary: s)
  case Nil
  then show ?case by simp
next
  case (Cons mat mats)
  then show ?case
    by (auto split: sum.splits dest!: setupMaterial_models)
qed

lemma setupDescriptorSets_models:
  "setupDescriptorSets s = Inr s' \<Longrightarrow>
   models s' = models s \<and> drawCmdBuffers s' = drawCmdBuffers s"
proof -
  assume "setupDescriptorSets s = Inr s'"
  then have "setupMaterials [materials_plastic, materials_metal, materials_stone]
      (s\<lparr>descriptorPool := vkCreateDescriptorPool
         [(VK_DESCRIPTOR_TYPE_UNIFORM_BUFFER, 4 * 3),
          (VK_DESCRIPTOR_TYPE_COMBINED_IMAGE_SAMPLER, 5 * 3)] 3\<rparr>) = Inr s'"
    by (simp only: setupDescriptorSets_def Let_def)
  from setupMaterials_models[OF this] show ?thesis by simp
qed

text \<open>From the state after the constructor, \<open>prepare\<close> succeeds: the three objects are
  loaded, the first one is active, and every command buffer of the base class is
  recorded.\<close>

lemma prepare_constructed:
  "\<exists>s'. prepare loadFromFile assetPath (constructed n) = Inr s' \<and> prepared s' \<and>
     length (drawCmdBuffers s') = n \<and> length (objects (models s')) = 3 \<and>
     objectIndex (models s') = 0"
proof -
  let ?l = "loadAssets loadFromFile assetPath (constructed n)"
  let ?u = "prepareUniformBuffers ?l"
  let ?d = "setupDescriptorSetLayout ?u"
  from setupDescriptorSets_result[of ?u] obtain s4 where
    s4: "setupDescriptorSets ?d = Inr s4" by blast
  from setupDescriptorSets_models[OF s4]
  have m: "models s4 = models ?l" "drawCmdBuffers s4 = drawCmdBuffers (constructed n)"
    by (simp_all add: setupDescriptorSetLayout_def prepareUniformBuffers_def updateLights_def
        updateUniformBuffers_def loadAssets_def Let_def)
  have o: "length (objects (models ?l)) = 3" "objectIndex (models ?l) = 0"
    by (simp_all add: loadAssets_def constructed_def Let_def)
  have v: "unat (objectIndex (models s4)) < length (objects (models s4))"
    by (simp add: m o)
  have c: "length (drawCmdBuffers (constructed n)) = n"
    by (simp add: constructed_def Let_def)
  show ?thesis
    by (simp add: prepare_def Let_def s4 buildCommandBuffers_valid[OF v] m o c)
qed

end
